theory Spec2Isabelle
  imports Main "HOL-Library.Sublist" "HOL-Library.AList"
begin

section \<open>Values of the host language\<close>

text \<open>
  The dispatcher \<^verbatim>\<open>apiRequest\<close> of \<^verbatim>\<open>src/lib/client/api-fetch-request/index.ts\<close> is glue
  around primitives of the JavaScript platform. Text is modelled as \<^typ>\<open>string\<close>, the
  UTF-8 bytes of the text. An object is an association list with distinct keys, in the
  order of its own properties; \<^verbatim>\<open>Object.keys(o).length > 0\<close> is then \<open>o \<noteq> []\<close>.
  Numbers are the integers (the fragment of the platform's numbers on which printing and
  reading are plain decimal notation).
\<close>

datatype json_value =
    JNull
  | JBool bool
  | JNum int
  | JStr string
  | JArr "json_value list"
  | JObj "(string \<times> json_value) list"

text \<open>The scalar values a query parameter can hold.\<close>

datatype prim = PUndefined | PNull | PBool bool | PNum int | PStr string

text \<open>
  What a rejected promise carries: the \<^verbatim>\<open>Error\<close> thrown by \<^verbatim>\<open>apiRequest\<close> itself, the
  \<^verbatim>\<open>SyntaxError\<close> of a failed JSON decode, the \<^verbatim>\<open>TypeError\<close> of a failed transport.
\<close>

datatype js_error = Error string | SyntaxError string | TypeError string

type_synonym 'v js_object = "(string \<times> 'v) list"

definition object_keys :: "'v js_object \<Rightarrow> string list" where
  "object_keys obj = map fst obj"

subsection \<open>Numbers as text\<close>

definition digit_char :: "nat \<Rightarrow> char" where
  "digit_char d = char_of (48 + d)"

fun string_of_nat :: "nat \<Rightarrow> string" where
  "string_of_nat n =
     (if n < 10 then [digit_char n]
      else string_of_nat (n div 10) @ [digit_char (n mod 10)])"

declare string_of_nat.simps [simp del]

definition string_of_int :: "int \<Rightarrow> string" where
  "string_of_int i =
     (if i < 0 then CHR ''-'' # string_of_nat (nat (- i)) else string_of_nat (nat i))"

text \<open>\<^verbatim>\<open>ToString\<close> of a scalar, as string interpolation and \<^verbatim>\<open>URLSearchParams\<close> apply it.\<close>

fun ToString :: "prim \<Rightarrow> string" where
  "ToString PUndefined = ''undefined''"
| "ToString PNull = ''null''"
| "ToString (PBool b) = (if b then ''true'' else ''false'')"
| "ToString (PNum n) = string_of_int n"
| "ToString (PStr s) = s"

subsection \<open>\<^verbatim>\<open>JSON.stringify\<close>\<close>

text \<open>
  \<^verbatim>\<open>QuoteJSONString\<close>: the quotation mark and the reverse solidus are escaped, the control
  characters below U+0020 are written with their short escape or as \<^verbatim>\<open>\u00xx\<close> with
  lower-case hexadecimal digits, every other byte is copied.
\<close>

definition hex_lower :: "nat \<Rightarrow> char" where
  "hex_lower d = (if d < 10 then char_of (48 + d) else char_of (87 + d))"

definition quote_char :: "char \<Rightarrow> string" where
  "quote_char c =
     (if c = CHR 0x22 then [CHR 0x5C, CHR 0x22]
      else if c = CHR 0x5C then [CHR 0x5C, CHR 0x5C]
      else if c = CHR 0x08 then [CHR 0x5C, CHR ''b'']
      else if c = CHR 0x09 then [CHR 0x5C, CHR ''t'']
      else if c = CHR 0x0A then [CHR 0x5C, CHR ''n'']
      else if c = CHR 0x0C then [CHR 0x5C, CHR ''f'']
      else if c = CHR 0x0D then [CHR 0x5C, CHR ''r'']
      else if (of_char c :: nat) < 32 then
        [CHR 0x5C, CHR ''u'', CHR ''0'', CHR ''0'',
         hex_lower (of_char c div 16), hex_lower (of_char c mod 16)]
      else [c])"

definition QuoteJSONString :: "string \<Rightarrow> string" where
  "QuoteJSONString s = CHR 0x22 # concat (map quote_char s) @ [CHR 0x22]"

fun JSON_stringify :: "json_value \<Rightarrow> string"
  and stringify_elements :: "json_value list \<Rightarrow> string"
  and stringify_members :: "(string \<times> json_value) list \<Rightarrow> string" where
  "JSON_stringify JNull = ''null''"
| "JSON_stringify (JBool b) = (if b then ''true'' else ''false'')"
| "JSON_stringify (JNum n) = string_of_int n"
| "JSON_stringify (JStr s) = QuoteJSONString s"
| "JSON_stringify (JArr vs) = ''['' @ stringify_elements vs @ '']''"
| "JSON_stringify (JObj ms) = ''{'' @ stringify_members ms @ ''}''"
| "stringify_elements [] = []"
| "stringify_elements [v] = JSON_stringify v"
| "stringify_elements (v # w # vs) =
     JSON_stringify v @ '','' @ stringify_elements (w # vs)"
| "stringify_members [] = []"
| "stringify_members [(k, v)] = QuoteJSONString k @ '':'' @ JSON_stringify v"
| "stringify_members ((k, v) # m # ms) =
     QuoteJSONString k @ '':'' @ JSON_stringify v @ '','' @ stringify_members (m # ms)"

section \<open>The application/x-www-form-urlencoded serializer of \<^verbatim>\<open>URLSearchParams\<close>\<close>

definition hex_upper :: "nat \<Rightarrow> char" where
  "hex_upper d = (if d < 10 then char_of (48 + d) else char_of (55 + d))"

definition percent_encode_byte :: "char \<Rightarrow> string" where
  "percent_encode_byte c =
     [CHR ''%'', hex_upper (of_char c div 16), hex_upper (of_char c mod 16)]"

definition ascii_alphanumeric :: "char \<Rightarrow> bool" where
  "ascii_alphanumeric c =
     (let n = (of_char c :: nat)
      in (48 \<le> n \<and> n \<le> 57) \<or> (65 \<le> n \<and> n \<le> 90) \<or> (97 \<le> n \<and> n \<le> 122))"

text \<open>
  The bytes the urlencoded percent-encode set leaves alone: the ASCII alphanumerics and
  \<^verbatim>\<open>* - . _\<close>. A space is written \<^verbatim>\<open>+\<close>.
\<close>

definition urlencoded_keeps :: "char \<Rightarrow> bool" where
  "urlencoded_keeps c =
     (ascii_alphanumeric c \<or> c = CHR ''*'' \<or> c = CHR ''-'' \<or> c = CHR ''.'' \<or> c = CHR ''_'')"

definition urlencoded_byte :: "char \<Rightarrow> string" where
  "urlencoded_byte c =
     (if c = CHR '' '' then ''+''
      else if urlencoded_keeps c then [c]
      else percent_encode_byte c)"

definition urlencoded_string :: "string \<Rightarrow> string" where
  "urlencoded_string s = concat (map urlencoded_byte s)"

fun join_with :: "string \<Rightarrow> string list \<Rightarrow> string" where
  "join_with sep [] = []"
| "join_with sep [p] = p"
| "join_with sep (p # q # ps) = p @ sep @ join_with sep (q # ps)"

definition urlencoded_serialize :: "(string \<times> string) list \<Rightarrow> string" where
  "urlencoded_serialize tuples =
     join_with ''&''
       (map (\<lambda>(name, val). urlencoded_string name @ ''='' @ urlencoded_string val) tuples)"

text \<open>
  \<^verbatim>\<open>new URLSearchParams(record)\<close> appends one pair per own property, each value converted
  to a string; interpolating the object into a template calls the serializer.
\<close>

definition URLSearchParams :: "prim js_object \<Rightarrow> (string \<times> string) list" where
  "URLSearchParams init = map (\<lambda>(name, val). (name, ToString val)) init"

definition URLSearchParams_toString :: "(string \<times> string) list \<Rightarrow> string" where
  "URLSearchParams_toString list = urlencoded_serialize list"

section \<open>The build configuration\<close>

text \<open>
  \<^verbatim>\<open>vite.config.ts\<close> replaces the token \<^verbatim>\<open>__HONO_DOMAIN__\<close> at build time, by the empty
  string when \<^verbatim>\<open>NODE_ENV\<close> is \<^verbatim>\<open>development\<close> and by the production origin otherwise.
\<close>

definition HONO_DOMAIN :: "string option \<Rightarrow> string" where
  "HONO_DOMAIN NODE_ENV =
     (if NODE_ENV = Some ''development'' then '''' else ''https://api.my-production-app.com'')"

section \<open>The request dispatcher\<close>

text \<open>The options object; its field \<^verbatim>\<open>method\<close> is \<open>http_method\<close> here.\<close>

record RequestInit =
  http_method :: string
  headers :: "string js_object"
  body :: "string option"

text \<open>
  Of the response the dispatcher reads \<^verbatim>\<open>ok\<close>, \<^verbatim>\<open>status\<close> and \<^verbatim>\<open>statusText\<close>, and it calls
  \<^verbatim>\<open>json()\<close>, whose promise resolves to the decoded body or rejects with the decode error.
\<close>

record Response =
  status :: nat
  statusText :: string
  json :: "js_error + json_value"

text \<open>The \<^verbatim>\<open>ok\<close> getter of the Fetch standard: the status is in the range 200 to 299.\<close>

definition ok :: "Response \<Rightarrow> bool" where
  "ok response = (200 \<le> status response \<and> status response \<le> 299)"

type_synonym transport = "string \<Rightarrow> RequestInit \<Rightarrow> js_error + Response"

text \<open>
  Object spread \<^verbatim>\<open>{ ...target, ...source }\<close>: the properties of the source are written
  onto a copy of the target in order, a key already present keeping its place.
\<close>

definition spread :: "'v js_object \<Rightarrow> 'v js_object \<Rightarrow> 'v js_object" where
  "spread target source = fold (\<lambda>(k, v). AList.update k v) source target"

text \<open>Interpolation of the optional field \<^verbatim>\<open>options.body\<close> into a template.\<close>

fun template_body :: "string option \<Rightarrow> string" where
  "template_body None = ''undefined''"
| "template_body (Some s) = s"

text \<open>Lines 83 to 107: the options object and the URL handed to \<^verbatim>\<open>fetch\<close>.\<close>

definition request_options ::
  "string \<Rightarrow> json_value js_object \<Rightarrow> string js_object \<Rightarrow> RequestInit" where
  "request_options meth payload additionalHeaders =
     (let headers0 = [(''Content-Type'', ''application/json'')];
          options = \<lparr>http_method = meth, headers = headers0, body = None\<rparr>;
          options = options\<lparr>headers := spread (headers options) additionalHeaders\<rparr>
      in if length (object_keys payload) > 0
         then options\<lparr>body := Some (JSON_stringify (JObj payload))\<rparr>
         else options)"

definition request_url :: "string option \<Rightarrow> string \<Rightarrow> prim js_object \<Rightarrow> string" where
  "request_url NODE_ENV path queryStringParams =
     (let qsParams =
        (if length (object_keys queryStringParams) > 0
         then ''?'' @ URLSearchParams_toString (URLSearchParams queryStringParams)
         else '''')
      in HONO_DOMAIN NODE_ENV @ ''/api'' @ path @ qsParams)"

text \<open>Lines 115 to 121: the message of the thrown error, line breaks and indentation included.\<close>

definition error_message ::
  "Response \<Rightarrow> string \<Rightarrow> string \<Rightarrow> RequestInit \<Rightarrow> json_value \<Rightarrow> string" where
  "error_message response meth url options result =
     [CHR 0x0A] @ ''      RESPONSE STATUS: '' @ string_of_nat (status response)
       @ '' | '' @ statusText response @
     [CHR 0x0A] @ ''      METHOD: '' @ meth @
     [CHR 0x0A] @ ''      URL: '' @ url @
     [CHR 0x0A] @ ''      PAYLOAD: '' @ template_body (body options) @
     [CHR 0x0A] @ ''      ERRORS: '' @ JSON_stringify result @
     [CHR 0x0A] @ ''    ''"

text \<open>
  \<^verbatim>\<open>apiRequest\<close>. The transport \<^verbatim>\<open>fetch\<close> is a parameter; a rejected promise is \<open>Inl\<close>, a
  resolved one \<open>Inr\<close>. The calls of \<^verbatim>\<open>console.log\<close> have no part in the result and are
  left out.
\<close>

definition apiRequest ::
  "string option \<Rightarrow> transport \<Rightarrow> string \<Rightarrow> string \<Rightarrow> prim js_object \<Rightarrow>
   json_value js_object \<Rightarrow> string js_object \<Rightarrow> js_error + json_value" where
  "apiRequest NODE_ENV fetch meth path queryStringParams payload additionalHeaders =
     (let options = request_options meth payload additionalHeaders;
          url = request_url NODE_ENV path queryStringParams
      in case fetch url options of
           Inl e \<Rightarrow> Inl e
         | Inr response \<Rightarrow>
             if \<not> ok response then
               (case json response of
                  Inl e \<Rightarrow> Inl e
                | Inr result \<Rightarrow> Inl (Error (error_message response meth url options result)))
             else json response)"

section \<open>Reading a query string back\<close>




fun split_on :: "char \<Rightarrow> string \<Rightarrow> string list" where
  "split_on d [] = [[]]"
| "split_on d (c # cs) =
     (if c = d then [] # split_on d cs
      else (case split_on d cs of [] \<Rightarrow> [[c]] | p # ps \<Rightarrow> (c # p) # ps))"







section \<open>\<^verbatim>\<open>JSON.parse\<close>\<close>

text \<open>
  The reader of JSON text, after ECMA-404: white space is space, tab, line feed and carriage
  return; a string may not hold a raw control character, and its escapes are the eight short
  ones and \<^verbatim>\<open>\uXXXX\<close>, which is written out in UTF-8 (a surrogate pair as one code point, a
  lone surrogate, which UTF-8 cannot hold, as U+FFFD); a number has no leading zero; a key
  given twice keeps its first place and its last value. Only integers are numbers here, so
  the result \<open>None\<close> stands for a syntax error and also for a document holding a number
  with a fraction or an exponent. The nesting of arrays and objects is read with fuel, one
  unit for each value and each element; \<^verbatim>\<open>JSON.parse\<close> starts with the length of the text.
\<close>

definition is_ws :: "char \<Rightarrow> bool" where
  "is_ws c = (c = CHR '' '' \<or> c = CHR 0x09 \<or> c = CHR 0x0A \<or> c = CHR 0x0D)"

definition skip_ws :: "string \<Rightarrow> string" where
  "skip_ws s = dropWhile is_ws s"

















text \<open>What can follow a value inside a document: nothing, or a separator or closing bracket.\<close>

definition closes :: "string \<Rightarrow> bool" where
  "closes rest =
     (case rest of [] \<Rightarrow> True | c # _ \<Rightarrow> c = CHR '','' \<or> c = CHR '']'' \<or> c = CHR ''}'')"



section \<open>Auxiliary facts\<close>

lemma spread_map_of:
  "distinct (map fst src) \<Longrightarrow> map_of (spread tgt src) = map_of tgt ++ map_of src"
  unfolding spread_def
proof (induction src arbitrary: tgt)
  case Nil
  then show ?case by simp
next
  case (Cons a src)
  obtain k v where a: "a = (k, v)" by (cases a)
  from Cons.prems have k: "k \<notin> fst ` set src" and d: "distinct (map fst src)"
    by (auto simp: a)
  have none: "map_of src k = None" using k by (simp add: map_of_eq_None_iff)
  have "map_of (fold (\<lambda>(k, v). AList.update k v) (a # src) tgt) =
        map_of (AList.update k v tgt) ++ map_of src"
    using Cons.IH [OF d, of "AList.update k v tgt"] by (simp add: a)
  also have "\<dots> = map_of tgt ++ map_of (a # src)"
  proof (rule ext)
    fix x
    show "(map_of (AList.update k v tgt) ++ map_of src) x = (map_of tgt ++ map_of (a # src)) x"
      using none by (cases "x = k") (auto simp: a update_conv' map_add_def split: option.splits)
  qed
  finally show ?case .
qed

lemma spread_distinct:
  "distinct (map fst tgt) \<Longrightarrow> distinct (map fst (spread tgt src))"
  unfolding spread_def
  by (induction src arbitrary: tgt) (auto simp: distinct_update)

lemma spread_keys:
  "fst ` set (spread tgt src) = fst ` set tgt \<union> fst ` set src"
  unfolding spread_def
proof (induction src arbitrary: tgt)
  case Nil
  then show ?case by simp
next
  case (Cons a src)
  obtain k v where a: "a = (k, v)" by (cases a)
  have "fst ` set (fold (\<lambda>(k, v). AList.update k v) (a # src) tgt) =
        fst ` set (AList.update k v tgt) \<union> fst ` set src"
    using Cons.IH [of "AList.update k v tgt"] by (simp add: a)
  also have "\<dots> = fst ` set tgt \<union> fst ` set (a # src)"
    unfolding dom_update by (auto simp: a)
  finally show ?case .
qed



lemma request_options_simps:
  "http_method (request_options meth payload hdrs) = meth"
  "headers (request_options meth payload hdrs) =
     spread [(''Content-Type'', ''application/json'')] hdrs"
  "body (request_options meth payload hdrs) =
     (if payload = [] then None else Some (JSON_stringify (JObj payload)))"
  by (simp_all add: request_options_def object_keys_def Let_def)

lemma apiRequest_rejects_descriptive:
  assumes "fetch (request_url env path qs) (request_options meth payload hdrs) = Inr response"
    and "\<not> ok response" and "json response = Inr result"
  shows "apiRequest env fetch meth path qs payload hdrs =
           Inl (Error (error_message response meth (request_url env path qs)
                  (request_options meth payload hdrs) result))"
  using assms by (simp add: apiRequest_def Let_def)



lemma sublist_payload_label:
  "sublist (''PAYLOAD: '' @ template_body (body options))
     (error_message response meth url options result)"
proof -
  have "error_message response meth url options result =
      ([CHR 0x0A] @ ''      RESPONSE STATUS: '' @ string_of_nat (status response)
         @ '' | '' @ statusText response @
       [CHR 0x0A] @ ''      METHOD: '' @ meth @
       [CHR 0x0A] @ ''      URL: '' @ url @ [CHR 0x0A] @ ''      '')
      @ (''PAYLOAD: '' @ template_body (body options))
      @ ([CHR 0x0A] @ ''      ERRORS: '' @ JSON_stringify result @ [CHR 0x0A] @ ''    '')"
    by (simp add: error_message_def)
  then show ?thesis
    by (simp only: sublist_appendI)
qed















lemma split_on_nonempty: "split_on d s \<noteq> []"
  by (induction s) (auto split: list.splits)






















lemma closes_skip_ws: "closes rest \<Longrightarrow> skip_ws rest = rest"
  by (cases rest) (auto simp: closes_def skip_ws_def is_ws_def)







































section \<open>The claims about the dispatcher\<close>




text \<open>
  Claim C3. When the transport resolves to a response with a status from 200 to 299 whose
  body decodes, \<^verbatim>\<open>apiRequest\<close> resolves to exactly the decoded body. The witness is the
  mocked 200 response with body \<^verbatim>\<open>{"id":1}\<close> for \<^verbatim>\<open>GET /users/1\<close>.
\<close>

theorem C3_success_resolves:
  assumes "fetch (request_url env path qs) (request_options meth payload hdrs) = Inr response"
    and "ok response"
    and "json response = Inr decoded"
  shows "apiRequest env fetch meth path qs payload hdrs = Inr decoded"
  using assms by (simp add: apiRequest_def Let_def)

theorem C3_success_resolves_witness:
  "ok \<lparr>status = 200, statusText = ''OK'', json = Inr (JObj [(''id'', JNum 1)])\<rparr>
   \<and> apiRequest None
         (\<lambda>u opts. Inr \<lparr>status = 200, statusText = ''OK'', json = Inr (JObj [(''id'', JNum 1)])\<rparr>)
         ''GET'' ''/users/1'' [] [] [] = Inr (JObj [(''id'', JNum 1)])"
proof -
  let ?r = "\<lparr>status = 200, statusText = ''OK'', json = Inr (JObj [(''id'', JNum 1)])\<rparr>"
  let ?f = "\<lambda>(u::string) (opts::RequestInit). (Inr ?r :: js_error + Response)"
  have a: "?f (request_url None ''/users/1'' []) (request_options ''GET'' [] []) = Inr ?r"
    by simp
  have b: "ok ?r" by (simp add: ok_def)
  have c: "json ?r = Inr (JObj [(''id'', JNum 1)])" by simp
  show ?thesis using C3_success_resolves [of ?f None "''/users/1''" "[]" "''GET''" "[]" "[]", OF a b c] b
    by simp
qed

text \<open>
  Claim C7. When the response has a status outside 200 to 299 and its body does not decode,
  \<^verbatim>\<open>apiRequest\<close> rejects with the decode error itself, not with the descriptive message.
\<close>

theorem C7_error_path_decode_failure:
  assumes "fetch (request_url env path qs) (request_options meth payload hdrs) = Inr response"
    and "\<not> ok response"
    and "json response = Inl (SyntaxError reason)"
  shows "apiRequest env fetch meth path qs payload hdrs = Inl (SyntaxError reason)
         \<and> apiRequest env fetch meth path qs payload hdrs \<noteq>
             Inl (Error (error_message response meth (request_url env path qs)
                    (request_options meth payload hdrs) result))"
  using assms by (simp add: apiRequest_def Let_def)

theorem C7_error_path_decode_failure_witness:
  "\<not> ok \<lparr>status = 500, statusText = ''Internal Server Error'',
          json = Inl (SyntaxError ''Unexpected token'')\<rparr>
   \<and> apiRequest None
         (\<lambda>u opts. Inr \<lparr>status = 500, statusText = ''Internal Server Error'',
                         json = Inl (SyntaxError ''Unexpected token'')\<rparr>)
         ''GET'' ''/users/1'' [] [] [] = Inl (SyntaxError ''Unexpected token'')"
proof -
  let ?r = "\<lparr>status = 500, statusText = ''Internal Server Error'',
          json = Inl (SyntaxError ''Unexpected token'')\<rparr>"
  let ?f = "\<lambda>(u::string) (opts::RequestInit). (Inr ?r :: js_error + Response)"
  have a: "?f (request_url None ''/users/1'' []) (request_options ''GET'' [] []) = Inr ?r"
    by simp
  have b: "\<not> ok ?r" by (simp add: ok_def)
  have c: "json ?r = Inl (SyntaxError ''Unexpected token'')" by simp
  show ?thesis
    using C7_error_path_decode_failure [of ?f None "''/users/1''" "[]" "''GET''" "[]" "[]", OF a b c] b
    by simp
qed

text \<open>
  Claim C8. The decode on the success path is unconditional: a response with a status from
  200 to 299 whose body does not decode makes \<^verbatim>\<open>apiRequest\<close> reject with the decode error.
\<close>

theorem C8_success_path_decode_failure:
  assumes "fetch (request_url env path qs) (request_options meth payload hdrs) = Inr response"
    and "ok response"
    and "json response = Inl (SyntaxError reason)"
  shows "apiRequest env fetch meth path qs payload hdrs = Inl (SyntaxError reason)"
  using assms by (simp add: apiRequest_def Let_def)

theorem C8_success_path_decode_failure_witness:
  "ok \<lparr>status = 200, statusText = ''OK'', json = Inl (SyntaxError ''Unexpected end of JSON input'')\<rparr>
   \<and> apiRequest None
         (\<lambda>u opts. Inr \<lparr>status = 200, statusText = ''OK'',
                         json = Inl (SyntaxError ''Unexpected end of JSON input'')\<rparr>)
         ''GET'' ''/users/1'' [] [] [] = Inl (SyntaxError ''Unexpected end of JSON input'')"
proof -
  let ?r = "\<lparr>status = 200, statusText = ''OK'',
          json = Inl (SyntaxError ''Unexpected end of JSON input'')\<rparr>"
  let ?f = "\<lambda>(u::string) (opts::RequestInit). (Inr ?r :: js_error + Response)"
  have a: "?f (request_url None ''/users/1'' []) (request_options ''GET'' [] []) = Inr ?r"
    by simp
  have b: "ok ?r" by (simp add: ok_def)
  have c: "json ?r = Inl (SyntaxError ''Unexpected end of JSON input'')" by simp
  show ?thesis
    using C8_success_path_decode_failure [of ?f None "''/users/1''" "[]" "''GET''" "[]" "[]", OF a b c] b
    by simp
qed



text \<open>
  Claim C9. With an empty payload no body field is set, and when the response has a status
  outside 200 to 299 and a body that decodes, the message of the thrown error contains the
  text \<^verbatim>\<open>PAYLOAD: undefined\<close>.
\<close>

theorem C9_payload_undefined:
  assumes "payload = []"
    and "fetch (request_url env path qs) (request_options meth payload hdrs) = Inr response"
    and "\<not> ok response"
    and "json response = Inr result"
  shows "body (request_options meth payload hdrs) = None
         \<and> (\<exists>msg. apiRequest env fetch meth path qs payload hdrs = Inl (Error msg)
               \<and> sublist ''PAYLOAD: undefined'' msg)"
proof -
  have none: "body (request_options meth payload hdrs) = None"
    using assms(1) by (simp add: request_options_simps)
  have "sublist (''PAYLOAD: '' @ template_body (body (request_options meth payload hdrs)))
          (error_message response meth (request_url env path qs)
             (request_options meth payload hdrs) result)"
    by (rule sublist_payload_label)
  then have "sublist ''PAYLOAD: undefined''
          (error_message response meth (request_url env path qs)
             (request_options meth payload hdrs) result)"
    by (simp add: none)
  moreover have "apiRequest env fetch meth path qs payload hdrs =
          Inl (Error (error_message response meth (request_url env path qs)
                 (request_options meth payload hdrs) result))"
    using assms(2-4) by (rule apiRequest_rejects_descriptive)
  ultimately show ?thesis using none by simp
qed

theorem C9_payload_undefined_witness:
  "\<not> ok \<lparr>status = 404, statusText = ''Not Found'',
           json = Inr (JObj [(''error'', JStr ''not found'')])\<rparr>
   \<and> body (request_options ''GET'' [] []) = None
   \<and> (\<exists>msg. apiRequest (Some ''development'')
         (\<lambda>u opts. Inr \<lparr>status = 404, statusText = ''Not Found'',
                         json = Inr (JObj [(''error'', JStr ''not found'')])\<rparr>)
         ''GET'' ''/users/999'' [] [] [] = Inl (Error msg)
        \<and> sublist ''PAYLOAD: undefined'' msg)"
proof -
  let ?v = "JObj [(''error'', JStr ''not found'')]"
  let ?r = "\<lparr>status = 404, statusText = ''Not Found'', json = Inr ?v\<rparr>"
  let ?f = "\<lambda>(u::string) (opts::RequestInit). (Inr ?r :: js_error + Response)"
  have a: "?f (request_url (Some ''development'') ''/users/999'' [])
              (request_options ''GET'' [] []) = Inr ?r"
    by simp
  have b: "\<not> ok ?r" by (simp add: ok_def)
  have c: "json ?r = Inr ?v" by simp
  from C9_payload_undefined [of "[]" ?f "Some ''development''" "''/users/999''" "[]" "''GET''" "[]" ?r ?v,
      OF refl a b c]
  show ?thesis using b by simp
qed

text \<open>
  Claim C5. The headers sent are the default set, holding only \<^verbatim>\<open>Content-Type\<close> with
  \<^verbatim>\<open>application/json\<close>, overridden and extended by the additional headers: a lookup
  finds the caller's value where the caller gave one and the default otherwise, and the
  keys are those of the caller together with \<^verbatim>\<open>Content-Type\<close>.
\<close>

theorem C5_header_merge:
  assumes "distinct (object_keys additionalHeaders)"
  shows "map_of (headers (request_options meth payload additionalHeaders)) =
           map_of [(''Content-Type'', ''application/json'')] ++ map_of additionalHeaders
         \<and> set (object_keys (headers (request_options meth payload additionalHeaders))) =
             insert ''Content-Type'' (set (object_keys additionalHeaders))
         \<and> distinct (object_keys (headers (request_options meth payload additionalHeaders)))"
proof -
  have d: "distinct (map fst additionalHeaders)"
    using assms by (simp add: object_keys_def)
  have "distinct (map fst [(''Content-Type'', ''application/json'')])" by simp
  then have "distinct (map fst (spread [(''Content-Type'', ''application/json'')] additionalHeaders))"
    by (rule spread_distinct)
  moreover have "fst ` set (spread [(''Content-Type'', ''application/json'')] additionalHeaders) =
      insert ''Content-Type'' (fst ` set additionalHeaders)"
    by (simp add: spread_keys)
  ultimately show ?thesis
    using spread_map_of [OF d, of "[(''Content-Type'', ''application/json'')]"]
    by (simp add: request_options_simps object_keys_def)
qed

theorem C5_header_merge_witness:
  "distinct (object_keys [(''Accept'', ''text/plain''), (''Content-Type'', ''text/csv'')])
   \<and> headers (request_options ''GET'' []
        [(''Accept'', ''text/plain''), (''Content-Type'', ''text/csv'')]) =
       [(''Content-Type'', ''text/csv''), (''Accept'', ''text/plain'')]
   \<and> map_of (headers (request_options ''GET'' []
        [(''Accept'', ''text/plain''), (''Content-Type'', ''text/csv'')])) =
       map_of [(''Content-Type'', ''application/json'')] ++
       map_of [(''Accept'', ''text/plain''), (''Content-Type'', ''text/csv'')]"
proof -
  have d: "distinct (object_keys [(''Accept'', ''text/plain''), (''Content-Type'', ''text/csv'')])"
    by (simp add: object_keys_def)
  have "headers (request_options ''GET'' []
        [(''Accept'', ''text/plain''), (''Content-Type'', ''text/csv'')]) =
       [(''Content-Type'', ''text/csv''), (''Accept'', ''text/plain'')]"
    by (simp add: request_options_simps spread_def)
  with C5_header_merge [OF d, of "''GET''" "[]"] d show ?thesis by blast
qed

section \<open>The claims about the query string\<close>







section \<open>The claim about the request body\<close>



end
